theory Spec2Isabelle
  imports Complex_Main "HOL-Library.Sublist"
begin

section \<open>Agentic day planner: enrichment tools and workflow guard\<close>

text \<open>
  A shallow embedding of \<^verbatim>\<open>src/tools.py\<close> (weather outlook, city news, local spots) and of
  the entry guard of \<^verbatim>\<open>plan_day_workflow\<close> in \<^verbatim>\<open>src/agents.py\<close>.

  Conventions of the model.
  \<^item> A Python \<^verbatim>\<open>str\<close> is a \<open>string\<close> holding its UTF-8 bytes. \<^verbatim>\<open>lower()\<close> and
    \<^verbatim>\<open>title()\<close> are computed on strings of ASCII characters; on any other string they are
    the library's, a parameter. \<^verbatim>\<open>strip()\<close> removes every white-space character of
    \<^verbatim>\<open>str.isspace\<close>, in its UTF-8 form.
  \<^item> A Python \<^verbatim>\<open>float\<close> is a \<open>real\<close>: rounding of the binary format is not modelled.
  \<^item> Every network request is represented by the response it receives; a failing
    \<^verbatim>\<open>raise_for_status()\<close> is the error \<open>HTTPError\<close>.
  \<^item> Clock reads and library parsers (\<^verbatim>\<open>strptime\<close>, \<^verbatim>\<open>parsedate_to_datetime\<close>,
    \<^verbatim>\<open>str\<close> of a number) are parameters.
  \<^item> An exception is a value \<open>Inl e\<close> of the result type \<open>py_error + 'a\<close>.
\<close>

datatype py_error =
  HTTPError | ValueError string | TypeError | IndexError | OverflowError | OSError

subsection \<open>Strings\<close>

definition lower_char :: "char \<Rightarrow> char" where
  "lower_char c =
     (case map_of (zip ''ABCDEFGHIJKLMNOPQRSTUVWXYZ'' ''abcdefghijklmnopqrstuvwxyz'') c of
        Some d \<Rightarrow> d
      | None \<Rightarrow> c)"

definition is_ascii :: "char \<Rightarrow> bool" where
  "is_ascii c \<longleftrightarrow> \<not> digit7 c"

text \<open>
  \<^verbatim>\<open>s.lower()\<close>. On a string of ASCII characters it lowers the letters A to Z. On a string
  with any other character it follows the Unicode case tables, which take the context of a
  letter into account: there the result is that of the parameter \<open>unicode_lower\<close>, the
  library's \<^verbatim>\<open>str.lower\<close>.
\<close>

definition lower :: "(string \<Rightarrow> string) \<Rightarrow> string \<Rightarrow> string" where
  "lower unicode_lower s = (if list_all is_ascii s then map lower_char s else unicode_lower s)"

fun starts_with :: "string \<Rightarrow> string \<Rightarrow> bool" where
  "starts_with [] hay = True"
| "starts_with (n # ns) [] = False"
| "starts_with (n # ns) (h # hs) = (n = h \<and> starts_with ns hs)"

text \<open>\<open>contains needle hay\<close> is Python's \<^verbatim>\<open>needle in hay\<close> on strings.\<close>

fun contains :: "string \<Rightarrow> string \<Rightarrow> bool" where
  "contains needle [] = (needle = [])"
| "contains needle (h # hs) = (starts_with needle (h # hs) \<or> contains needle hs)"

text \<open>\<open>join sep xs\<close> is \<^verbatim>\<open>sep.join(xs)\<close>.\<close>

fun join :: "string \<Rightarrow> string list \<Rightarrow> string" where
  "join sep [] = []"
| "join sep [x] = x"
| "join sep (x # y # ys) = x @ sep @ join sep (y # ys)"

text \<open>Truthiness of an optional string: \<^verbatim>\<open>None\<close> and \<^verbatim>\<open>""\<close> are falsy.\<close>

fun truthy_str :: "string option \<Rightarrow> bool" where
  "truthy_str None = False"
| "truthy_str (Some s) = (s \<noteq> [])"

text \<open>\<^verbatim>\<open>a or b\<close> on optional strings and on optional numbers (where \<^verbatim>\<open>0\<close> is falsy).\<close>

definition or_str :: "string option \<Rightarrow> string option \<Rightarrow> string option" where
  "or_str a b = (if truthy_str a then a else b)"

fun truthy_num :: "real option \<Rightarrow> bool" where
  "truthy_num None = False"
| "truthy_num (Some x) = (x \<noteq> 0)"

definition or_num :: "real option \<Rightarrow> real option \<Rightarrow> real option" where
  "or_num a b = (if truthy_num a then a else b)"

text \<open>\<^verbatim>\<open>filter(None, xs)\<close> on optional strings: the truthy ones, in order.\<close>

fun present :: "string option list \<Rightarrow> string list" where
  "present [] = []"
| "present (None # xs) = present xs"
| "present (Some s # xs) = (if s = [] then present xs else s # present xs)"

text \<open>\<open>split_on c s\<close> is \<^verbatim>\<open>s.split(c)\<close> for a one-character separator.\<close>

fun split_on :: "char \<Rightarrow> string \<Rightarrow> string list" where
  "split_on c [] = [[]]"
| "split_on c (x # xs) =
     (if x = c then [] # split_on c xs
      else case split_on c xs of
             [] \<Rightarrow> [[x]]
           | w # ws \<Rightarrow> (x # w) # ws)"

text \<open>
  The white space of \<^verbatim>\<open>str.isspace\<close>, by the UTF-8 bytes of a character. In one byte: tab
  to carriage return, the separators \<^verbatim>\<open>0x1c\<close> to \<^verbatim>\<open>0x1f\<close>, and the space. In two bytes:
  U+0085 and U+00A0. In three bytes: U+1680, U+2000 to U+200A, U+2028, U+2029, U+202F,
  U+205F and U+3000.
\<close>

definition is_space :: "char \<Rightarrow> bool" where
  "is_space c \<longleftrightarrow>
     c \<in> set [CHR 0x09, CHR 0x0A, CHR 0x0B, CHR 0x0C, CHR 0x0D,
                CHR 0x1C, CHR 0x1D, CHR 0x1E, CHR 0x1F, CHR 0x20]"

definition space2 :: "char \<Rightarrow> char \<Rightarrow> bool" where
  "space2 a b \<longleftrightarrow> a = CHR 0xC2 \<and> b \<in> set [CHR 0x85, CHR 0xA0]"

definition space3 :: "char \<Rightarrow> char \<Rightarrow> char \<Rightarrow> bool" where
  "space3 a b c \<longleftrightarrow>
     a = CHR 0xE1 \<and> b = CHR 0x9A \<and> c = CHR 0x80
     \<or> a = CHR 0xE2 \<and> b = CHR 0x80 \<and>
        c \<in> set [CHR 0x80, CHR 0x81, CHR 0x82, CHR 0x83, CHR 0x84, CHR 0x85, CHR 0x86, CHR 0x87,
                   CHR 0x88, CHR 0x89, CHR 0x8A, CHR 0xA8, CHR 0xA9, CHR 0xAF]
     \<or> a = CHR 0xE2 \<and> b = CHR 0x81 \<and> c = CHR 0x9F
     \<or> a = CHR 0xE3 \<and> b = CHR 0x80 \<and> c = CHR 0x80"

text \<open>
  \<open>lstrip False s\<close> removes the white space at the front of \<open>s\<close>. \<open>lstrip True\<close> does so on
  a reversed string, where the bytes of a character come last byte first.
\<close>

fun lstrip :: "bool \<Rightarrow> string \<Rightarrow> string" where
  "lstrip back [] = []"
| "lstrip back [a] = (if is_space a then [] else [a])"
| "lstrip back [a, b] =
     (if is_space a then lstrip back [b]
      else if (if back then space2 b a else space2 a b) then []
      else [a, b])"
| "lstrip back (a # b # c # s) =
     (if is_space a then lstrip back (b # c # s)
      else if (if back then space2 b a else space2 a b) then lstrip back (c # s)
      else if (if back then space3 c b a else space3 a b c) then lstrip back s
      else a # b # c # s)"

text \<open>\<^verbatim>\<open>s.strip()\<close>: the white space at both ends is removed.\<close>

definition strip :: "string \<Rightarrow> string" where
  "strip s = rev (lstrip True (rev (lstrip False s)))"

subsection \<open>Decimal rendering\<close>

definition digit_char :: "nat \<Rightarrow> char" where
  "digit_char d = ''0123456789'' ! (d mod 10)"

fun str_nat :: "nat \<Rightarrow> string" where
  "str_nat n = (if n < 10 then [digit_char n] else str_nat (n div 10) @ [digit_char (n mod 10)])"

declare str_nat.simps [simp del]

definition str_int :: "int \<Rightarrow> string" where
  "str_int i = (if i < 0 then ''-'' @ str_nat (nat (- i)) else str_nat (nat i))"

text \<open>Rounding to the nearest integer, a tie going to the even neighbour.\<close>

definition round_half_even :: "real \<Rightarrow> int" where
  "round_half_even x =
     (let f = \<lfloor>x\<rfloor>; d = x - of_int f
      in if d < 1 / 2 then f
         else if 1 / 2 < d then f + 1
         else if even f then f else f + 1)"

text \<open>\<open>format_1f x\<close> is \<^verbatim>\<open>f"{x:.1f}"\<close>: sign, integer digits, a point, one digit.\<close>

definition format_1f :: "real \<Rightarrow> string" where
  "format_1f x =
     (let n = nat (round_half_even (\<bar>x\<bar> * 10))
      in (if x < 0 then ''-'' else '''') @ str_nat (n div 10) @ ''.'' @ [digit_char (n mod 10)])"

subsection \<open>Geocoder\<close>

record geo_match =
  gm_name :: "string option"
  gm_admin1 :: "string option"
  gm_country :: "string option"
  gm_latitude :: real
  gm_longitude :: real

text \<open>
  The geocoder's answer: a failed request, or a JSON body whose \<^verbatim>\<open>results\<close> key is absent
  (\<open>None\<close>) or holds a list of matches.
\<close>

datatype geo_response = GeoHttpError | GeoBody "geo_match list option"

definition lookup_coordinates ::
  "(string \<Rightarrow> geo_response) \<Rightarrow> string \<Rightarrow> py_error + (real \<times> real \<times> string) option" where
  "lookup_coordinates geocoder location =
     (if location = [] then Inr None
      else case geocoder location of
             GeoHttpError \<Rightarrow> Inl HTTPError
           | GeoBody None \<Rightarrow> Inr None
           | GeoBody (Some []) \<Rightarrow> Inr None
           | GeoBody (Some (m # _)) \<Rightarrow>
               Inr (Some (gm_latitude m, gm_longitude m,
                          join '', '' (present [gm_name m, gm_admin1 m, gm_country m]))))"

subsection \<open>Great-circle distance\<close>

definition radians :: "real \<Rightarrow> real" where
  "radians x = x * pi / 180"

definition atan2 :: "real \<Rightarrow> real \<Rightarrow> real" where
  "atan2 y x =
     (if 0 < x then arctan (y / x)
      else if x < 0 \<and> 0 \<le> y then arctan (y / x) + pi
      else if x < 0 then arctan (y / x) - pi
      else if 0 < y then pi / 2
      else if y < 0 then - pi / 2
      else 0)"

text \<open>\<^verbatim>\<open>math.sqrt\<close> raises \<^verbatim>\<open>ValueError\<close> on a negative argument.\<close>

definition km_distance :: "real \<Rightarrow> real \<Rightarrow> real \<Rightarrow> real \<Rightarrow> py_error + real" where
  "km_distance lat1 lon1 lat2 lon2 =
     (let r = 6371;
          phi1 = radians lat1; phi2 = radians lat2;
          d_phi = radians (lat2 - lat1);
          d_lambda = radians (lon2 - lon1);
          a = (sin (d_phi / 2))\<^sup>2 + cos phi1 * cos phi2 * (sin (d_lambda / 2))\<^sup>2
      in if a < 0 \<or> 1 - a < 0 then Inl (ValueError ''math domain error'')
         else Inr (r * (2 * atan2 (sqrt a) (sqrt (1 - a)))))"

subsection \<open>Points of interest\<close>

definition POI_TAGS :: "(string \<times> string \<times> string) list" where
  "POI_TAGS =
     [(''leisure'', ''stadium'', ''Stadium''),
      (''leisure'', ''pitch'', ''Sports Pitch''),
      (''leisure'', ''sports_centre'', ''Sports Centre''),
      (''amenity'', ''cinema'', ''Cinema''),
      (''amenity'', ''theatre'', ''Theatre''),
      (''shop'', ''mall'', ''Mall''),
      (''leisure'', ''park'', ''Park''),
      (''tourism'', ''attraction'', ''Attraction''),
      (''amenity'', ''restaurant'', ''Restaurant'')]"

type_synonym tags = "string \<rightharpoonup> string"

fun tag_scan :: "tags \<Rightarrow> (string \<times> string \<times> string) list \<Rightarrow> string option" where
  "tag_scan tgs [] = None"
| "tag_scan tgs ((k, v, l) # rest) = (if tgs k = Some v then Some l else tag_scan tgs rest)"

definition tag_label :: "tags \<Rightarrow> string" where
  "tag_label tgs =
     (case tag_scan tgs POI_TAGS of
        Some l \<Rightarrow> l
      | None \<Rightarrow>
          (case or_str (or_str (or_str (tgs ''amenity'') (tgs ''leisure'')) (tgs ''tourism''))
                       (Some ''Point of interest'') of
             Some l \<Rightarrow> l
           | None \<Rightarrow> ''Point of interest''))"

record center =
  c_lat :: "real option"
  c_lon :: "real option"

record element =
  el_tags :: "tags option"
  el_lat :: "real option"
  el_lon :: "real option"
  el_center :: "center option"

record spot =
  spot_name :: string
  spot_label :: string
  spot_distance :: real
  spot_score :: real

text \<open>\<^verbatim>\<open>element.get("lat") or element.get("center", {}).get("lat")\<close>, and the same for lon.\<close>

definition elem_lat :: "element \<Rightarrow> real option" where
  "elem_lat e = or_num (el_lat e) (case el_center e of None \<Rightarrow> None | Some c \<Rightarrow> c_lat c)"

definition elem_lon :: "element \<Rightarrow> real option" where
  "elem_lon e = or_num (el_lon e) (case el_center e of None \<Rightarrow> None | Some c \<Rightarrow> c_lon c)"

definition elem_tags :: "element \<Rightarrow> tags" where
  "elem_tags e = (case el_tags e of None \<Rightarrow> Map.empty | Some t \<Rightarrow> t)"

text \<open>The score of one venue: lines 302 to 309 and the \<^verbatim>\<open>max(score, 0)\<close> of line 316.\<close>

definition interest_score :: "(string \<Rightarrow> string) \<Rightarrow> string \<Rightarrow> string \<Rightarrow> real \<Rightarrow> real" where
  "interest_score unicode_lower interest_lower label distance =
     (let score = distance;
          score =
            (if interest_lower \<noteq> [] then
               (let score = (if contains ''cricket'' interest_lower
                                \<and> contains ''stadium'' (lower unicode_lower label)
                             then score - 2 else score);
                    score = (if contains ''movie'' interest_lower
                                \<and> contains ''cinema'' (lower unicode_lower label)
                             then score - 1.5 else score);
                    score = (if list_ex (\<lambda>word. contains word interest_lower)
                                   [''game'', ''gaming'', ''mall''] \<and> label = ''Mall''
                             then score - 1 else score)
                in score)
             else score)
      in max score 0)"

text \<open>
  The loop over the returned elements (lines 288 to 319), with the list \<open>spots\<close> and the
  set \<open>seen\<close> threaded through; \<open>ul\<close> is the library's \<^verbatim>\<open>str.lower\<close>.
\<close>

fun spots_loop ::
  "(string \<Rightarrow> string) \<Rightarrow> real \<Rightarrow> real \<Rightarrow> string \<Rightarrow> element list \<Rightarrow> spot list \<Rightarrow> string set
     \<Rightarrow> py_error + spot list" where
  "spots_loop ul lat lon interest_lower [] spots seen = Inr spots"
| "spots_loop ul lat lon interest_lower (e # es) spots seen =
     (case elem_tags e ''name'' of
        None \<Rightarrow> spots_loop ul lat lon interest_lower es spots seen
      | Some name \<Rightarrow>
          if name = [] \<or> name \<in> seen then spots_loop ul lat lon interest_lower es spots seen
          else
            (case (elem_lat e, elem_lon e) of
               (Some la, Some lo) \<Rightarrow>
                 (case km_distance lat lon la lo of
                    Inl err \<Rightarrow> Inl err
                  | Inr distance \<Rightarrow>
                      (let label = tag_label (elem_tags e)
                       in spots_loop ul lat lon interest_lower es
                            (spots @ [\<lparr>spot_name = name, spot_label = label,
                                       spot_distance = distance,
                                       spot_score = interest_score ul interest_lower label distance\<rparr>])
                            (insert name seen)))
             | _ \<Rightarrow> spots_loop ul lat lon interest_lower es spots seen))"

text \<open>\<^verbatim>\<open>spots.sort(key=lambda s: s["score"])\<close>: a stable sort on the score.\<close>

definition sort_spots :: "spot list \<Rightarrow> spot list" where
  "sort_spots spots = sort_key spot_score spots"

definition render_spot :: "spot \<Rightarrow> string" where
  "render_spot s =
     ''- '' @ spot_name s @ '' ('' @ spot_label s @ '') '' @ [CHR 0xC2, CHR 0xB7] @ '' ''
       @ format_1f (spot_distance s) @ '' km away''"

text \<open>The lines of the report (lines 324 to 334), before they are joined.\<close>

definition spot_lines :: "string \<Rightarrow> string \<Rightarrow> spot list \<Rightarrow> string list" where
  "spot_lines pretty_label interest_lower spots =
     [''Highlighted venues near '' @ pretty_label @ '' (within ~8 km):'']
       @ map render_spot (take 7 (sort_spots spots))
       @ (if interest_lower \<noteq> [] then [''Interest bias applied for: '' @ interest_lower @ ''.'']
          else [])"

text \<open>The POI service's answer: a failed request, or a body whose \<^verbatim>\<open>elements\<close> may be absent.\<close>

datatype poi_response = PoiHttpError | PoiBody "element list option"

definition get_local_spots ::
  "(string \<Rightarrow> string) \<Rightarrow> (string \<Rightarrow> geo_response) \<Rightarrow> (real \<Rightarrow> real \<Rightarrow> poi_response) \<Rightarrow> string
     \<Rightarrow> string option \<Rightarrow> py_error + string" where
  "get_local_spots ul geocoder overpass location interest =
     (case lookup_coordinates geocoder location of
        Inl err \<Rightarrow> Inl err
      | Inr None \<Rightarrow> Inr (''Unable to locate coordinates for '' @ [CHR 0x27] @ location @ [CHR 0x27] @ ''.'')
      | Inr (Some (lat, lon, pretty_label)) \<Rightarrow>
          (case overpass lat lon of
             PoiHttpError \<Rightarrow> Inl HTTPError
           | PoiBody elements \<Rightarrow>
               (let interest_lower = lower ul (case interest of None \<Rightarrow> [] | Some i \<Rightarrow> i)
                in case spots_loop ul lat lon interest_lower
                          (case elements of None \<Rightarrow> [] | Some es \<Rightarrow> es) [] {} of
                     Inl err \<Rightarrow> Inl err
                   | Inr spots \<Rightarrow>
                       if spots = [] then
                         Inr (''No notable venues were detected within 8km of '' @ pretty_label @ ''.'')
                       else Inr (join [CHR 0x0A] (spot_lines pretty_label interest_lower spots)))))"

subsection \<open>Clock and library parsers\<close>

text \<open>
  A date is its day number since 1970-01-01 and an instant its second since then, both in
  UTC. What \<^verbatim>\<open>parsedate_to_datetime(p).astimezone(timezone.utc)\<close> does to a publish date
  is one of three things: the parser raises \<^verbatim>\<open>TypeError\<close> or \<^verbatim>\<open>ValueError\<close>; the parser
  returns and the conversion to UTC raises (\<^verbatim>\<open>OverflowError\<close> for a date at the end of the
  calendar); or both return, with an instant.
\<close>

type_synonym date = int

datatype pub_parse = Unparsed | NoUtc py_error | Utc int

text \<open>
  The record holds what the tools read from outside: the clock, \<^verbatim>\<open>strptime\<close> with the
  format \<^verbatim>\<open>%Y-%m-%d\<close> (\<open>None\<close> where it raises \<^verbatim>\<open>ValueError\<close>), the parser of publish
  dates, \<^verbatim>\<open>date.isoformat\<close>, \<^verbatim>\<open>strftime\<close> of the current instant, \<^verbatim>\<open>str\<close> of a JSON
  number, and \<^verbatim>\<open>str.lower\<close> on strings that are not ASCII. One call reads one instant.
\<close>

record env =
  env_now :: int
  env_now_stamp :: string
  env_strptime :: "string \<Rightarrow> date option"
  env_isoformat :: "date \<Rightarrow> string"
  env_parsedate :: "string \<Rightarrow> pub_parse"
  env_str_num :: "real \<Rightarrow> string"
  env_lower :: "string \<Rightarrow> string"

definition parse_iso_date :: "env \<Rightarrow> string option \<Rightarrow> date option" where
  "parse_iso_date ev v =
     (case v of
        None \<Rightarrow> None
      | Some s \<Rightarrow> if s = [] then None else env_strptime ev s)"

definition today_utc :: "env \<Rightarrow> date" where
  "today_utc ev = env_now ev div 86400"

text \<open>\<^verbatim>\<open>_parse_iso_date(target_date) or _today_utc()\<close>: a date is always truthy.\<close>

definition target_day_of :: "env \<Rightarrow> string option \<Rightarrow> date" where
  "target_day_of ev target_date =
     (case parse_iso_date ev target_date of
        Some d \<Rightarrow> d
      | None \<Rightarrow> today_utc ev)"

subsection \<open>Weather outlook\<close>

text \<open>
  A series is a JSON array of numbers or nulls (\<open>None\<close>), or of strings for the sunrise and
  sunset; a key that is absent from its object is \<open>None\<close>.
\<close>

record daily_block =
  temperature_2m_max :: "real option list option"
  temperature_2m_min :: "real option list option"
  sunrise :: "string option list option"
  sunset :: "string option list option"
  precipitation_probability_max :: "real option list option"

record hourly_block =
  precipitation_probability :: "real option list option"
  relative_humidity_2m :: "real option list option"
  temperature_2m :: "real option list option"

record forecast =
  daily :: "daily_block option"
  hourly :: "hourly_block option"

datatype forecast_range = Dates string string | ForecastDays nat

datatype forecast_response = ForecastHttpError | ForecastBody forecast

definition fetch_forecast ::
  "(real \<Rightarrow> real \<Rightarrow> forecast_range \<Rightarrow> forecast_response) \<Rightarrow> real \<Rightarrow> real
     \<Rightarrow> string option \<Rightarrow> string option \<Rightarrow> py_error + forecast" where
  "fetch_forecast service lat lon start_date end_date =
     (case service lat lon
             (case (start_date, end_date) of
                (Some s, Some e) \<Rightarrow> if s \<noteq> [] \<and> e \<noteq> [] then Dates s e else ForecastDays 1
              | _ \<Rightarrow> ForecastDays 1) of
        ForecastHttpError \<Rightarrow> Inl HTTPError
      | ForecastBody f \<Rightarrow> Inr f)"

text \<open>\<^verbatim>\<open>str\<close> of a series element inside an f-string.\<close>

definition str_number :: "env \<Rightarrow> real option \<Rightarrow> string" where
  "str_number ev v = (case v of None \<Rightarrow> ''None'' | Some x \<Rightarrow> env_str_num ev x)"

definition str_text :: "string option \<Rightarrow> string" where
  "str_text v = (case v of None \<Rightarrow> ''None'' | Some s \<Rightarrow> s)"

text \<open>\<^verbatim>\<open>d.get(key, [])\<close> on a series.\<close>

definition series_of :: "'a list option \<Rightarrow> 'a list" where
  "series_of v = (case v of None \<Rightarrow> [] | Some xs \<Rightarrow> xs)"

text \<open>\<^verbatim>\<open>_pick\<close>, followed by the \<^verbatim>\<open>str\<close> that the f-string applies to its result.\<close>

definition pick :: "('a \<Rightarrow> string) \<Rightarrow> 'a list \<Rightarrow> string" where
  "pick shw series = (case series of [] \<Rightarrow> ''N/A'' | x # _ \<Rightarrow> shw x)"

text \<open>Python's \<^verbatim>\<open>xs[i]\<close> for \<open>i \<ge> 0\<close>: out of range it raises \<^verbatim>\<open>IndexError\<close>.\<close>

definition index :: "'a list \<Rightarrow> nat \<Rightarrow> py_error + 'a" where
  "index xs i = (if i < length xs then Inr (xs ! i) else Inl IndexError)"

text \<open>
  \<^verbatim>\<open>max(xs)\<close>: the first element, replaced by each later one that compares greater;
  a comparison with \<^verbatim>\<open>None\<close> raises \<^verbatim>\<open>TypeError\<close>.
\<close>

fun max_loop :: "real option \<Rightarrow> real option list \<Rightarrow> py_error + real option" where
  "max_loop m [] = Inr m"
| "max_loop m (x # xs) =
     (case (m, x) of
        (Some a, Some b) \<Rightarrow> max_loop (if a < b then Some b else Some a) xs
      | _ \<Rightarrow> Inl TypeError)"

definition py_max :: "real option list \<Rightarrow> py_error + real option" where
  "py_max xs =
     (case xs of
        [] \<Rightarrow> Inl (ValueError ''max() arg is an empty sequence'')
      | x # rest \<Rightarrow> max_loop x rest)"

definition degC :: string where
  "degC = [CHR 0xC2, CHR 0xB0] @ ''C''"

definition precip_risk :: "env \<Rightarrow> real option list \<Rightarrow> py_error + string" where
  "precip_risk ev hourly_precip =
     (if hourly_precip \<noteq> [] then
        (case py_max hourly_precip of
           Inl err \<Rightarrow> Inl err
         | Inr m \<Rightarrow> Inr (str_number ev m @ ''%''))
      else Inr ''No precipitation data'')"

definition humidity_snapshot :: "env \<Rightarrow> real option list \<Rightarrow> py_error + string" where
  "humidity_snapshot ev humidity =
     (if humidity \<noteq> [] then
        (case index humidity (length humidity div 2) of
           Inl err \<Rightarrow> Inl err
         | Inr v \<Rightarrow> Inr (str_number ev v @ ''%''))
      else Inr ''N/A'')"

definition midday_temp :: "env \<Rightarrow> real option list \<Rightarrow> py_error + string" where
  "midday_temp ev temperature =
     (if temperature \<noteq> [] then
        (case index temperature (length temperature div 2) of
           Inl err \<Rightarrow> Inl err
         | Inr v \<Rightarrow> Inr (str_number ev v @ degC))
      else Inr ''N/A'')"

definition empty_daily :: daily_block where
  "empty_daily = \<lparr>temperature_2m_max = None, temperature_2m_min = None, sunrise = None,
                  sunset = None, precipitation_probability_max = None\<rparr>"

definition empty_hourly :: hourly_block where
  "empty_hourly = \<lparr>precipitation_probability = None, relative_humidity_2m = None,
                   temperature_2m = None\<rparr>"

text \<open>\<^verbatim>\<open>forecast.get("daily", {})\<close> and \<^verbatim>\<open>forecast.get("hourly", {})\<close>.\<close>

definition daily_of :: "forecast \<Rightarrow> daily_block" where
  "daily_of fc = (case daily fc of None \<Rightarrow> empty_daily | Some d \<Rightarrow> d)"

definition hourly_of :: "forecast \<Rightarrow> hourly_block" where
  "hourly_of fc = (case hourly fc of None \<Rightarrow> empty_hourly | Some h \<Rightarrow> h)"

text \<open>The f-string of lines 182 to 189, from the fields it interpolates.\<close>

record outlook_fields =
  f_min_temp :: string
  f_max_temp :: string
  f_midday :: string
  f_snapshot :: string
  f_max_precip :: string
  f_risk :: string
  f_sunrise :: string
  f_sunset :: string

definition outlook_message :: "string \<Rightarrow> string \<Rightarrow> string \<Rightarrow> outlook_fields \<Rightarrow> string" where
  "outlook_message pretty_label day_str timestamp f =
     ''Weather outlook for '' @ pretty_label @ '' on '' @ day_str
       @ '' (generated '' @ timestamp @ ''):'' @ [CHR 0x0A]
     @ ''- Daily range: '' @ f_min_temp f @ degC @ '' '' @ [CHR 0xE2, CHR 0x80, CHR 0x93] @ '' ''
       @ f_max_temp f @ degC @ '' (midday ~ '' @ f_midday f @ '')'' @ [CHR 0x0A]
     @ ''- Humidity snapshot: '' @ f_snapshot f @ [CHR 0x0A]
     @ ''- Peak precipitation probability: '' @ f_max_precip f
       @ ''% (hourly max '' @ f_risk f @ '')'' @ [CHR 0x0A]
     @ ''- Sunrise at '' @ f_sunrise f @ '', sunset at '' @ f_sunset f @ [CHR 0x0A]
     @ ''- Tip: favor indoor plans if precipitation exceeds 40% or humidity stays above 80%.''"

text \<open>The summary of one forecast: lines 160 to 189.\<close>

definition outlook_text :: "env \<Rightarrow> string \<Rightarrow> string \<Rightarrow> forecast \<Rightarrow> py_error + string" where
  "outlook_text ev pretty_label day_str fc =
     (let dly = daily_of fc;
          max_temp = pick (str_number ev) (series_of (temperature_2m_max dly));
          min_temp = pick (str_number ev) (series_of (temperature_2m_min dly));
          sunrise_at = pick str_text (series_of (sunrise dly));
          sunset_at = pick str_text (series_of (sunset dly));
          max_precip = pick (str_number ev) (series_of (precipitation_probability_max dly));
          hly = hourly_of fc;
          hourly_precip = series_of (precipitation_probability hly);
          humidity = series_of (relative_humidity_2m hly);
          temperature = series_of (temperature_2m hly)
      in case precip_risk ev hourly_precip of
           Inl err \<Rightarrow> Inl err
         | Inr risk \<Rightarrow>
             (case humidity_snapshot ev humidity of
                Inl err \<Rightarrow> Inl err
              | Inr snapshot \<Rightarrow>
                  (case midday_temp ev temperature of
                     Inl err \<Rightarrow> Inl err
                   | Inr midday \<Rightarrow>
                       Inr (outlook_message pretty_label day_str (env_now_stamp ev)
                              \<lparr>f_min_temp = min_temp, f_max_temp = max_temp,
                               f_midday = midday, f_snapshot = snapshot,
                               f_max_precip = max_precip, f_risk = risk,
                               f_sunrise = sunrise_at, f_sunset = sunset_at\<rparr>))))"

definition get_weather_outlook ::
  "env \<Rightarrow> (string \<Rightarrow> geo_response) \<Rightarrow> (real \<Rightarrow> real \<Rightarrow> forecast_range \<Rightarrow> forecast_response)
     \<Rightarrow> string \<Rightarrow> string option \<Rightarrow> py_error + string" where
  "get_weather_outlook ev geocoder service location target_date =
     (case lookup_coordinates geocoder location of
        Inl err \<Rightarrow> Inl err
      | Inr None \<Rightarrow>
          Inr (''Unable to locate coordinates for '' @ [CHR 0x27] @ location @ [CHR 0x27]
               @ ''. Ask the user for a clearer location.'')
      | Inr (Some (lat, lon, pretty_label)) \<Rightarrow>
          (let target_day = target_day_of ev target_date;
               day_str = env_isoformat ev target_day
           in case fetch_forecast service lat lon (Some day_str) (Some day_str) of
                Inl err \<Rightarrow> Inl err
              | Inr fc \<Rightarrow> outlook_text ev pretty_label day_str fc))"

subsection \<open>City news\<close>

text \<open>
  An item of the feed. A child element that is absent is \<open>None\<close>; the source element may be
  present without text (\<open>Some None\<close>).
\<close>

record news_item =
  ni_title :: "string option"
  ni_description :: "string option"
  ni_pubDate :: "string option"
  ni_link :: "string option"
  ni_source :: "string option option"

text \<open>\<^verbatim>\<open>item.findtext(tag, default=d)\<close>.\<close>

definition findtext :: "string option \<Rightarrow> string \<Rightarrow> string" where
  "findtext child dflt = (case child of None \<Rightarrow> dflt | Some t \<Rightarrow> t)"

text \<open>
  \<^verbatim>\<open>_format_news_age\<close>: only the parser is inside the \<^verbatim>\<open>try\<close>, an error of the
  conversion to UTC goes to the caller.
\<close>

definition format_news_age :: "env \<Rightarrow> string \<Rightarrow> py_error + string" where
  "format_news_age ev pub_date =
     (case env_parsedate ev pub_date of
        Unparsed \<Rightarrow> Inr ''recent''
      | NoUtc err \<Rightarrow> Inl err
      | Utc published \<Rightarrow>
          (let hours = (env_now ev - published) div 3600
           in if hours < 1 then Inr ''just now''
              else if hours < 24 then Inr (str_int hours @ ''h ago'')
              else Inr (str_int (hours div 24) @ ''d ago'')))"

definition keywords_of :: "env \<Rightarrow> string option \<Rightarrow> string list" where
  "keywords_of ev interests =
     map (\<lambda>token. lower (env_lower ev) (strip token))
       (filter (\<lambda>token. strip token \<noteq> [])
          (split_on CHR '','' (case interests of None \<Rightarrow> [] | Some i \<Rightarrow> i)))"

text \<open>\<^verbatim>\<open>except (TypeError, ValueError)\<close>.\<close>

fun caught :: "py_error \<Rightarrow> bool" where
  "caught TypeError = True"
| "caught (ValueError m) = True"
| "caught err = False"

text \<open>
  The date test of lines 226 to 232: \<open>Inr True\<close> when the item is to be skipped, \<open>Inl\<close>
  when the conversion to UTC raises an error that the \<^verbatim>\<open>except\<close> clause does not catch.
\<close>

definition date_mismatch :: "env \<Rightarrow> date \<Rightarrow> news_item \<Rightarrow> py_error + bool" where
  "date_mismatch ev target_day item =
     (let pub_date = findtext (ni_pubDate item) []
      in if pub_date \<noteq> [] then
           (case env_parsedate ev pub_date of
              Unparsed \<Rightarrow> Inr False
            | NoUtc err \<Rightarrow> if caught err then Inr False else Inl err
            | Utc published \<Rightarrow> Inr (published div 86400 \<noteq> target_day))
         else Inr False)"

text \<open>The keyword test of lines 243 to 246: true when the item is to be skipped.\<close>

definition keyword_miss :: "env \<Rightarrow> string list \<Rightarrow> news_item \<Rightarrow> bool" where
  "keyword_miss ev keywords item =
     (let title_lower = lower (env_lower ev) (findtext (ni_title item) ''Untitled'');
          desc_lower = lower (env_lower ev) (findtext (ni_description item) [])
      in keywords \<noteq> [] \<and>
         \<not> list_ex (\<lambda>keyword. contains keyword title_lower \<or> contains keyword desc_lower) keywords)"

text \<open>The line of an item (line 248), from its age.\<close>

definition news_line :: "news_item \<Rightarrow> string \<Rightarrow> string" where
  "news_line item age =
     (let title = findtext (ni_title item) ''Untitled'';
          link = findtext (ni_link item) [];
          source_name = (case ni_source item of
                           None \<Rightarrow> ''Local outlet''
                         | Some txt \<Rightarrow> str_text txt)
      in ''- '' @ title @ '' ('' @ source_name @ '', '' @ age @ '')'' @ [CHR 0x0A] @ ''  '' @ link)"

text \<open>
  The loop of lines 224 to 251, with the list \<open>filtered\<close> threaded through. The age of an
  item that passes the date test is computed (line 239) before its keywords are tested.
\<close>

fun news_loop ::
  "env \<Rightarrow> date \<Rightarrow> string list \<Rightarrow> news_item list \<Rightarrow> string list \<Rightarrow> py_error + string list" where
  "news_loop ev target_day keywords [] filtered = Inr filtered"
| "news_loop ev target_day keywords (item # items) filtered =
     (case date_mismatch ev target_day item of
        Inl err \<Rightarrow> Inl err
      | Inr True \<Rightarrow> news_loop ev target_day keywords items filtered
      | Inr False \<Rightarrow>
          (case format_news_age ev (findtext (ni_pubDate item) []) of
             Inl err \<Rightarrow> Inl err
           | Inr age \<Rightarrow>
               if keyword_miss ev keywords item
               then news_loop ev target_day keywords items filtered
               else (let filtered' = filtered @ [news_line item age]
                     in if length filtered' = 5 then Inr filtered'
                        else news_loop ev target_day keywords items filtered')))"

datatype news_response = NewsHttpError | NewsParseError | NewsFeed "news_item list"

definition get_city_news ::
  "env \<Rightarrow> (string \<Rightarrow> news_response) \<Rightarrow> string \<Rightarrow> string option \<Rightarrow> string option
     \<Rightarrow> py_error + string" where
  "get_city_news ev feed location target_date interests =
     (if location = [] then Inr ''Location not provided for news lookup.''
      else
        (let target_day = target_day_of ev target_date;
             keywords = keywords_of ev interests
         in case feed location of
              NewsHttpError \<Rightarrow> Inl HTTPError
            | NewsParseError \<Rightarrow> Inr (''Unable to parse news feed for '' @ location @ ''.'')
            | NewsFeed items \<Rightarrow>
                (case news_loop ev target_day keywords items [] of
                   Inl err \<Rightarrow> Inl err
                 | Inr filtered \<Rightarrow>
                     if filtered = [] then
                       (let fallback = map (\<lambda>item. findtext (ni_title item) ''Untitled'') (take 3 items)
                        in Inr (''No date-matching headlines found for '' @ location @ '' on ''
                                  @ env_isoformat ev target_day @ ''.'' @ [CHR 0x0A]
                                @ ''Sample current stories: ''
                                  @ (if fallback \<noteq> [] then join '', '' fallback else ''N/A'')
                                  @ ''.''))
                     else Inr (''City news for '' @ location @ '' on ''
                                 @ env_isoformat ev target_day @ '':'' @ [CHR 0x0A]
                               @ join [CHR 0x0A] filtered))))"

subsection \<open>The planning workflow\<close>

definition upper_char :: "char \<Rightarrow> char" where
  "upper_char c =
     (case map_of (zip ''abcdefghijklmnopqrstuvwxyz'' ''ABCDEFGHIJKLMNOPQRSTUVWXYZ'') c of
        Some d \<Rightarrow> d
      | None \<Rightarrow> c)"

definition is_alpha :: "char \<Rightarrow> bool" where
  "is_alpha c \<longleftrightarrow> c \<in> set ''abcdefghijklmnopqrstuvwxyzABCDEFGHIJKLMNOPQRSTUVWXYZ''"

text \<open>
  \<^verbatim>\<open>s.title()\<close>. On a string of ASCII characters a letter after a letter is lowered and
  any other letter is raised; on any other string the result is that of the parameter
  \<open>unicode_title\<close>, the library's \<^verbatim>\<open>str.title\<close>.
\<close>

fun title_from :: "bool \<Rightarrow> string \<Rightarrow> string" where
  "title_from prev [] = []"
| "title_from prev (c # cs) =
     (if prev then lower_char c else upper_char c) # title_from (is_alpha c) cs"

definition title :: "(string \<Rightarrow> string) \<Rightarrow> string \<Rightarrow> string" where
  "title unicode_title s = (if list_all is_ascii s then title_from False s else unicode_title s)"

text \<open>
  The user data is a dictionary in insertion order, a value being a string or \<^verbatim>\<open>None\<close>.
\<close>

type_synonym user_data = "(string \<times> string option) list"

definition or_default :: "string option \<Rightarrow> string \<Rightarrow> string" where
  "or_default v dflt = (if truthy_str v then str_text v else dflt)"

text \<open>\<^verbatim>\<open>user_data.get(key)\<close>: an absent key and a \<^verbatim>\<open>None\<close> value both give \<^verbatim>\<open>None\<close>.\<close>

definition get_field :: "user_data \<Rightarrow> string \<Rightarrow> string option" where
  "get_field user_data key = (case map_of user_data key of None \<Rightarrow> None | Some v \<Rightarrow> v)"

definition format_user_context :: "(string \<Rightarrow> string) \<Rightarrow> user_data \<Rightarrow> string" where
  "format_user_context unicode_title user_data =
     join [CHR 0x0A]
       (map (\<lambda>(key, val). title unicode_title key @ '': '' @ or_default val ''N/A'') user_data)"

text \<open>
  What the workflow does to the outside, in order: building the model client, creating an
  agent (by role), reporting progress (stage and message), running a task (role of the agent
  and description).
\<close>

datatype event =
  LlmBuilt
| AgentCreated string
| Progress string string
| TaskRun string string

record plan_result =
  pr_persona :: string
  pr_weather :: string
  pr_local_insights :: string
  pr_plan :: string
  pr_date :: string
  pr_commitments :: string
  pr_adjustments :: string

text \<open>\<^verbatim>\<open>_notify\<close>: the callback is called when one was given.\<close>

definition notify :: "bool \<Rightarrow> string \<Rightarrow> string \<Rightarrow> event list" where
  "notify progress stage message = (if progress then [Progress stage message] else [])"

definition profile_description :: "string \<Rightarrow> string \<Rightarrow> string" where
  "profile_description plan_date user_context =
     ''Create a JSON persona profile for a leisure day planner. ''
     @ ''The user is completely off work on the specified date, so focus on lifestyle cues.''
     @ [CHR 0x0A]
     @ ''Plan date: '' @ plan_date @ [CHR 0x0A]
     @ user_context @ [CHR 0x0A]
     @ ''Return keys: name, email, location, profession, hobbies, interests, priorities, ''
     @ ''tone, ideal_pace, summary.''"

definition weather_description :: "string \<Rightarrow> string \<Rightarrow> string" where
  "weather_description location plan_date =
     ''Retrieve the weather outlook for the selected leisure date using GetWeatherOutlook. ''
     @ ''You must call the tool with both location and target_date in ISO format.''
     @ [CHR 0x0A]
     @ ''Location: '' @ location @ [CHR 0x0A]
     @ ''Date: '' @ plan_date"

definition insights_description :: "string \<Rightarrow> string \<Rightarrow> string \<Rightarrow> string \<Rightarrow> string" where
  "insights_description location plan_date hobbies interests =
     ''Surface concrete happenings and venues for the user'' @ [CHR 0x27] @ ''s free day. ''
     @ ''Use GetCityNews with location, target_date, and interest keywords to find relevant events. ''
     @ ''Use GetLocalSpots to gather nearby venues for the stated hobbies/interests. ''
     @ ''Tag each suggestion as Outdoor or Indoor-safe.'' @ [CHR 0x0A]
     @ ''Location: '' @ location @ [CHR 0x0A]
     @ ''Date: '' @ plan_date @ [CHR 0x0A]
     @ ''Hobbies: '' @ hobbies @ [CHR 0x0A]
     @ ''Interests: '' @ interests"

definition planning_description ::
  "string \<Rightarrow> string \<Rightarrow> string \<Rightarrow> string \<Rightarrow> string \<Rightarrow> string \<Rightarrow> string" where
  "planning_description plan_date profile weather local_insights commitments adjustments =
     ''Design a detailed leisure-day itinerary (no work items) for the specified date.''
     @ [CHR 0x0A]
     @ ''Date: '' @ plan_date @ [CHR 0x0A]
     @ ''Persona JSON:'' @ [CHR 0x0A] @ profile @ [CHR 0x0A]
     @ ''Weather insights:'' @ [CHR 0x0A] @ weather @ [CHR 0x0A]
     @ ''Local picks:'' @ [CHR 0x0A] @ local_insights @ [CHR 0x0A]
     @ ''Fixed commitments (must appear exactly at given times): '' @ commitments @ [CHR 0x0A]
     @ ''User adjustments or feedback: '' @ adjustments @ [CHR 0x0A]
     @ ''Output should cover Morning, Midday, Afternoon, Evening, and Late Night. ''
     @ ''Each block must specify concrete times and explicit venues or neighborhoods. ''
     @ ''Reference at least two suggestions from the local picks, and adjust indoor/outdoor balance based on the weather. ''
     @ ''Respect fixed commitments even if it requires reshuffling nearby blocks. ''
     @ ''Assume the user is free the entire day and prefers a balanced pace.''"

text \<open>
  \<^verbatim>\<open>plan_day_workflow\<close>. The crew that runs a task is the parameter \<open>kickoff\<close>, from the role
  of the agent and the description of the task to the text it returns; the expected-output
  texts, which only the crew reads, are left out. The parameter \<open>unicode_title\<close> is the
  library's \<^verbatim>\<open>str.title\<close>. The result comes with the trace of events.
\<close>

definition plan_day_workflow ::
  "(string \<Rightarrow> string) \<Rightarrow> (string \<Rightarrow> string \<Rightarrow> string) \<Rightarrow> user_data \<Rightarrow> string \<Rightarrow> string option
     \<Rightarrow> string option \<Rightarrow> bool \<Rightarrow> (py_error + plan_result) \<times> event list" where
  "plan_day_workflow unicode_title kickoff user_data plan_date commitments adjustments progress =
     (if \<not> truthy_str (get_field user_data ''location'') then
        (Inl (ValueError ''Location is required to generate the day plan.''), [])
      else if plan_date = [] then (Inl (ValueError ''Plan date is required.''), [])
      else
        (let location = str_text (get_field user_data ''location'');
             user_context = format_user_context unicode_title user_data;
             d1 = profile_description plan_date user_context;
             profile = kickoff ''User Data Curator'' d1;
             d2 = weather_description location plan_date;
             weather = kickoff ''Climate Analyst'' d2;
             d3 = insights_description location plan_date
                    (or_default (get_field user_data ''hobbies'') ''N/A'')
                    (or_default (get_field user_data ''interests'') ''N/A'');
             local_insights = kickoff ''City Culture Scout'' d3;
             d4 = planning_description plan_date profile weather local_insights
                    (or_default commitments ''None provided'')
                    (or_default adjustments ''No additional preferences supplied'');
             plan = kickoff ''Personal Day Planner'' d4
         in (Inr \<lparr>pr_persona = profile, pr_weather = weather,
                  pr_local_insights = local_insights, pr_plan = plan, pr_date = plan_date,
                  pr_commitments = or_default commitments [],
                  pr_adjustments = or_default adjustments []\<rparr>,
             [LlmBuilt, AgentCreated ''User Data Curator'', AgentCreated ''Climate Analyst'',
              AgentCreated ''City Culture Scout'', AgentCreated ''Personal Day Planner'']
             @ notify progress ''persona'' (''Summarizing your vibe for this day off...'')
             @ [TaskRun ''User Data Curator'' d1]
             @ notify progress ''weather''
                 (''Checking the weather and comfort levels for the day...'')
             @ [TaskRun ''Climate Analyst'' d2]
             @ notify progress ''insights''
                 (''Hunting for venues and happenings in your city you'' @ [CHR 0x27] @ ''ll love...'')
             @ [TaskRun ''City Culture Scout'' d3]
             @ notify progress ''planning'' (''Crafting your curated timeline(Final Step)...'')
             @ [TaskRun ''Personal Day Planner'' d4])))"

subsection \<open>The news filter as the specification words it\<close>

text \<open>
  The three stages of the specification, on items: keep an item unless its publish date
  parses to another day than the target (an absent or empty date is not parsed, and a date
  without a UTC day counts as one that does not parse); with keywords, keep an item when its
  title or description contains one of them, both in lower case; keep the first five.
\<close>

definition spec_date_ok :: "env \<Rightarrow> date \<Rightarrow> news_item \<Rightarrow> bool" where
  "spec_date_ok ev target_day item =
     (case ni_pubDate item of
        None \<Rightarrow> True
      | Some p \<Rightarrow>
          p = [] \<or>
          (case env_parsedate ev p of
             Utc published \<Rightarrow> published div 86400 = target_day
           | _ \<Rightarrow> True))"

definition spec_keyword_ok :: "env \<Rightarrow> string list \<Rightarrow> news_item \<Rightarrow> bool" where
  "spec_keyword_ok ev keywords item =
     (keywords = [] \<or>
      (\<exists>k \<in> set keywords.
         contains k (lower (env_lower ev) (findtext (ni_title item) ''Untitled'')) \<or>
         contains k (lower (env_lower ev) (findtext (ni_description item) []))))"

definition spec_news_filter :: "env \<Rightarrow> date \<Rightarrow> string list \<Rightarrow> news_item list \<Rightarrow> news_item list" where
  "spec_news_filter ev target_day keywords items =
     take 5 (filter (spec_keyword_ok ev keywords) (filter (spec_date_ok ev target_day) items))"

text \<open>
  The age shown for an item whose publish date has an instant or does not parse, and the
  items whose publish date makes the conversion to UTC raise.
\<close>

definition age_text :: "env \<Rightarrow> news_item \<Rightarrow> string" where
  "age_text ev item =
     (case env_parsedate ev (findtext (ni_pubDate item) []) of
        Utc published \<Rightarrow>
          (let hours = (env_now ev - published) div 3600
           in if hours < 1 then ''just now''
              else if hours < 24 then str_int hours @ ''h ago''
              else str_int (hours div 24) @ ''d ago'')
      | _ \<Rightarrow> ''recent'')"

definition utc_raises :: "env \<Rightarrow> news_item \<Rightarrow> bool" where
  "utc_raises ev item =
     (case env_parsedate ev (findtext (ni_pubDate item) []) of
        NoUtc err \<Rightarrow> True
      | _ \<Rightarrow> False)"

subsection \<open>A reference environment\<close>

text \<open>
  An environment for the concrete examples below: the clock reads 2025-06-01 10:00:00 UTC
  (day 20240), the parsers know a few dates, a number is shown by the digits of its integer
  part, and the library's \<^verbatim>\<open>str.lower\<close> is the identity, which the examples in ASCII do not
  call.
\<close>

definition demo_env :: env where
  "demo_env =
     \<lparr>env_now = 1748772000, env_now_stamp = ''2025-06-01 10:00 UTC'',
      env_strptime = (\<lambda>s. if s = ''2025-06-01'' then Some 20240 else None),
      env_isoformat = (\<lambda>d. if d = 20240 then ''2025-06-01'' else ''another day''),
      env_parsedate =
        (\<lambda>s. if s = ''Sun, 01 Jun 2025 09:00:00 GMT'' then Utc 1748768400
             else if s = ''Sat, 31 May 2025 09:00:00 GMT'' then Utc 1748682000
             else if s = ''Fri, 31 Dec 9999 23:59:59 -0500'' then NoUtc OverflowError
             else Unparsed),
      env_str_num = (\<lambda>x. str_int \<lfloor>x\<rfloor>),
      env_lower = (\<lambda>s. s)\<rparr>"


text \<open>Items of a feed for the examples.\<close>

definition item_yesterday :: news_item where
  "item_yesterday = \<lparr>ni_title = Some ''Cricket final tonight'', ni_description = Some [],
     ni_pubDate = Some ''Sat, 31 May 2025 09:00:00 GMT'', ni_link = Some ''https://n.example/1'',
     ni_source = Some (Some ''Daily Post'')\<rparr>"

definition item_today :: news_item where
  "item_today = \<lparr>ni_title = Some ''Cricket carnival'', ni_description = None,
     ni_pubDate = Some ''Sun, 01 Jun 2025 09:00:00 GMT'', ni_link = Some ''https://n.example/2'',
     ni_source = None\<rparr>"

definition item_undated :: news_item where
  "item_undated = \<lparr>ni_title = None, ni_description = Some ''Live CRICKET screening'',
     ni_pubDate = Some ''soon'', ni_link = None, ni_source = Some None\<rparr>"

definition item_traffic :: news_item where
  "item_traffic = \<lparr>ni_title = Some ''Traffic update'', ni_description = Some ''Road works'',
     ni_pubDate = Some ''Sun, 01 Jun 2025 09:00:00 GMT'', ni_link = Some ''https://n.example/4'',
     ni_source = Some (Some ''Metro'')\<rparr>"

definition item_overflow :: news_item where
  "item_overflow = \<lparr>ni_title = Some ''Cricket in the far future'', ni_description = None,
     ni_pubDate = Some ''Fri, 31 Dec 9999 23:59:59 -0500'', ni_link = None, ni_source = None\<rparr>"

text \<open>
  A library \<^verbatim>\<open>str.lower\<close> that knows the two strings below: FETE and Fete de la Musique,
  each with a circumflex on its first E.
\<close>

definition accent_lower :: "string \<Rightarrow> string" where
  "accent_lower s =
     (if s = [CHR ''F'', CHR 0xC3, CHR 0x8A, CHR ''T'', CHR ''E'']
      then [CHR ''f'', CHR 0xC3, CHR 0xAA, CHR ''t'', CHR ''e'']
      else if s = [CHR ''F'', CHR 0xC3, CHR 0xAA] @ ''te de la Musique''
      then [CHR ''f'', CHR 0xC3, CHR 0xAA] @ ''te de la musique''
      else s)"

section \<open>Properties\<close>

subsection \<open>Scoring of venues\<close>


lemma spots_loop_step:
  assumes "elem_tags e ''name'' = Some name" "name \<noteq> []" "name \<notin> seen"
    "elem_lat e = Some la" "elem_lon e = Some lo" "km_distance lat lon la lo = Inr d"
  shows "spots_loop ul lat lon il (e # es) acc seen =
           spots_loop ul lat lon il es
             (acc @ [\<lparr>spot_name = name, spot_label = tag_label (elem_tags e), spot_distance = d,
                      spot_score = interest_score ul il (tag_label (elem_tags e)) d\<rparr>])
             (insert name seen)"
  using assms by (simp add: Let_def)

lemma spots_loop_cases:
  obtains (skip) "spots_loop ul lat lon il (e # es) acc seen = spots_loop ul lat lon il es acc seen"
  | (fail) err where "spots_loop ul lat lon il (e # es) acc seen = Inl err"
  | (keep) name la lo d where "elem_tags e ''name'' = Some name" "name \<noteq> []" "name \<notin> seen"
      "elem_lat e = Some la" "elem_lon e = Some lo" "km_distance lat lon la lo = Inr d"
proof (cases "elem_tags e ''name''")
  case None
  then show ?thesis using skip by simp
next
  case (Some name)
  show ?thesis
  proof (cases "name = [] \<or> name \<in> seen")
    case True
    with Some show ?thesis using skip by auto
  next
    case False
    show ?thesis
    proof (cases "elem_lat e")
      case None
      with Some False show ?thesis using skip by simp
    next
      case la: (Some la)
      show ?thesis
      proof (cases "elem_lon e")
        case None
        with Some False la show ?thesis using skip by simp
      next
        case lo: (Some lo)
        show ?thesis
        proof (cases "km_distance lat lon la lo")
          case (Inl err)
          with Some False la lo show ?thesis using fail by simp
        next
          case (Inr d)
          with Some False la lo show ?thesis using keep by simp
        qed
      qed
    qed
  qed
qed




subsection \<open>Ranking and rendering of venues\<close>

lemma round_half_even_near: "\<bar>of_int (round_half_even x) - x\<bar> \<le> 1 / 2"
proof -
  have "of_int \<lfloor>x\<rfloor> \<le> x" "x < of_int \<lfloor>x\<rfloor> + 1" by linarith+
  then show ?thesis
    by (auto simp: round_half_even_def Let_def)
qed

lemma round_half_even_nonneg: "0 \<le> x \<Longrightarrow> 0 \<le> round_half_even x"
  by (auto simp: round_half_even_def Let_def)

lemma format_1f_shape:
  "\<exists>n::nat. format_1f d = (if d < 0 then ''-'' else '''') @ str_nat (n div 10) @ ''.'' @ [digit_char (n mod 10)]
      \<and> \<bar>real n / 10 - \<bar>d\<bar>\<bar> \<le> 1 / 20"
proof -
  define n where "n = nat (round_half_even (\<bar>d\<bar> * 10))"
  have "0 \<le> round_half_even (\<bar>d\<bar> * 10)" by (rule round_half_even_nonneg) simp
  then have "real n = of_int (round_half_even (\<bar>d\<bar> * 10))" by (simp add: n_def)
  with round_half_even_near[of "\<bar>d\<bar> * 10"] have "\<bar>real n - \<bar>d\<bar> * 10\<bar> \<le> 1 / 2" by simp
  then have "\<bar>real n / 10 - \<bar>d\<bar>\<bar> \<le> 1 / 20" by linarith
  moreover have "format_1f d = (if d < 0 then ''-'' else '''') @ str_nat (n div 10) @ ''.'' @ [digit_char (n mod 10)]"
    by (simp add: format_1f_def n_def Let_def)
  ultimately show ?thesis by blast
qed

lemma ranked_sorted: "sorted (map spot_score (take 7 (sort_spots spots)))"
proof -
  have "sorted (map spot_score (sort_key spot_score spots))" by (rule sorted_sort_key)
  then have "sorted (take 7 (map spot_score (sort_key spot_score spots)))" by (rule sorted_wrt_take)
  then show ?thesis by (simp add: sort_spots_def take_map)
qed

lemma ranked_stable:
  "prefix (filter (\<lambda>s. spot_score s = k) (take 7 (sort_spots spots)))
          (filter (\<lambda>s. spot_score s = k) spots)"
proof -
  have "prefix (filter (\<lambda>s. spot_score s = k) (take 7 (sort_spots spots)))
               (filter (\<lambda>s. spot_score s = k) (sort_spots spots))"
    by (rule filter_mono_prefix) (rule take_is_prefix)
  then show ?thesis by (simp add: sort_spots_def sort_key_stable)
qed
text \<open>
  Claim C2. The lines of the report are a header, the venues and an optional interest line.
  The venues are the first seven of the list sorted by score: their scores never decrease,
  venues of equal score stand in the order in which they were collected, at most seven are
  shown, and each is rendered as its name, its label in brackets, a middle dot and the
  distance with one digit after the point, that digit being the nearest tenth.
\<close>

theorem poi_output_sorted_stable_top7:
  "spot_lines pretty_label interest_lower spots =
     (''Highlighted venues near '' @ pretty_label @ '' (within ~8 km):'')
       # map render_spot (take 7 (sort_spots spots))
       @ (if interest_lower \<noteq> [] then [''Interest bias applied for: '' @ interest_lower @ ''.''] else [])
   \<and> sorted (map spot_score (take 7 (sort_spots spots)))
   \<and> (\<forall>k. prefix (filter (\<lambda>s. spot_score s = k) (take 7 (sort_spots spots)))
                  (filter (\<lambda>s. spot_score s = k) spots))
   \<and> length (take 7 (sort_spots spots)) = min 7 (length spots)
   \<and> set (take 7 (sort_spots spots)) \<subseteq> set spots
   \<and> (\<forall>s. \<exists>n::nat.
         render_spot s =
           ''- '' @ spot_name s @ '' ('' @ spot_label s @ '') '' @ [CHR 0xC2, CHR 0xB7] @ '' ''
             @ (if spot_distance s < 0 then ''-'' else '''')
             @ str_nat (n div 10) @ ''.'' @ [digit_char (n mod 10)] @ '' km away''
         \<and> \<bar>real n / 10 - \<bar>spot_distance s\<bar>\<bar> \<le> 1 / 20)"
proof -
  have lines: "spot_lines pretty_label interest_lower spots =
     (''Highlighted venues near '' @ pretty_label @ '' (within ~8 km):'')
       # map render_spot (take 7 (sort_spots spots))
       @ (if interest_lower \<noteq> [] then [''Interest bias applied for: '' @ interest_lower @ ''.''] else [])"
    by (simp add: spot_lines_def)
  have len: "length (take 7 (sort_spots spots)) = min 7 (length spots)"
    by (simp add: sort_spots_def min.commute)
  have sub: "set (take 7 (sort_spots spots)) \<subseteq> set spots"
    using set_take_subset[of 7 "sort_spots spots"] by (simp add: sort_spots_def)
  have render: "\<exists>n::nat.
         render_spot s =
           ''- '' @ spot_name s @ '' ('' @ spot_label s @ '') '' @ [CHR 0xC2, CHR 0xB7] @ '' ''
             @ (if spot_distance s < 0 then ''-'' else '''')
             @ str_nat (n div 10) @ ''.'' @ [digit_char (n mod 10)] @ '' km away''
         \<and> \<bar>real n / 10 - \<bar>spot_distance s\<bar>\<bar> \<le> 1 / 20" for s
  proof -
    from format_1f_shape[of "spot_distance s"] obtain n :: nat where
      n: "format_1f (spot_distance s) = (if spot_distance s < 0 then ''-'' else '''')
            @ str_nat (n div 10) @ ''.'' @ [digit_char (n mod 10)]"
         "\<bar>real n / 10 - \<bar>spot_distance s\<bar>\<bar> \<le> 1 / 20" by blast
    have "render_spot s =
           ''- '' @ spot_name s @ '' ('' @ spot_label s @ '') '' @ [CHR 0xC2, CHR 0xB7] @ '' ''
             @ (if spot_distance s < 0 then ''-'' else '''')
             @ str_nat (n div 10) @ ''.'' @ [digit_char (n mod 10)] @ '' km away''"
      unfolding render_spot_def n(1) by simp
    with n(2) show ?thesis by blast
  qed
  from lines ranked_sorted ranked_stable len sub render show ?thesis by blast
qed

theorem poi_output_sorted_stable_top7_witness:
  "spot_lines ''Hyderabad, Telangana, India'' ''cricket''
     [\<lparr>spot_name = ''Lake Park'', spot_label = ''Park'', spot_distance = 2.5, spot_score = 2.5\<rparr>,
      \<lparr>spot_name = ''City Mall'', spot_label = ''Mall'', spot_distance = 1.25, spot_score = 1\<rparr>,
      \<lparr>spot_name = ''Gachibowli Stadium'', spot_label = ''Stadium'', spot_distance = 3,
        spot_score = 1\<rparr>]
   = [''Highlighted venues near Hyderabad, Telangana, India (within ~8 km):'',
      ''- City Mall (Mall) '' @ [CHR 0xC2, CHR 0xB7] @ '' 1.2 km away'',
      ''- Gachibowli Stadium (Stadium) '' @ [CHR 0xC2, CHR 0xB7] @ '' 3.0 km away'',
      ''- Lake Park (Park) '' @ [CHR 0xC2, CHR 0xB7] @ '' 2.5 km away'',
      ''Interest bias applied for: cricket.'']"
proof -
  let ?spots = "[\<lparr>spot_name = ''Lake Park'', spot_label = ''Park'', spot_distance = 2.5, spot_score = 2.5\<rparr>,
      \<lparr>spot_name = ''City Mall'', spot_label = ''Mall'', spot_distance = 1.25, spot_score = 1\<rparr>,
      \<lparr>spot_name = ''Gachibowli Stadium'', spot_label = ''Stadium'', spot_distance = 3,
        spot_score = (1::real)\<rparr>]"
  have sorted: "take 7 (sort_spots ?spots) =
     [\<lparr>spot_name = ''City Mall'', spot_label = ''Mall'', spot_distance = 1.25, spot_score = 1\<rparr>,
      \<lparr>spot_name = ''Gachibowli Stadium'', spot_label = ''Stadium'', spot_distance = 3,
        spot_score = 1\<rparr>,
      \<lparr>spot_name = ''Lake Park'', spot_label = ''Park'', spot_distance = 2.5, spot_score = 2.5\<rparr>]"
    by (simp add: sort_spots_def)
  have f: "format_1f (5 / 4) = ''1.2''" "format_1f 3 = ''3.0''" "format_1f (5 / 2) = ''2.5''"
    by (simp_all add: format_1f_def round_half_even_def str_nat.simps digit_char_def Let_def)
  from poi_output_sorted_stable_top7[of "''Hyderabad, Telangana, India''" "''cricket''" ?spots]
  have "spot_lines ''Hyderabad, Telangana, India'' ''cricket'' ?spots =
     (''Highlighted venues near '' @ ''Hyderabad, Telangana, India'' @ '' (within ~8 km):'')
       # map render_spot (take 7 (sort_spots ?spots))
       @ [''Interest bias applied for: '' @ ''cricket'' @ ''.'']"
    by simp
  then show ?thesis
    by (simp only: sorted) (simp add: render_spot_def f)
qed

subsection \<open>Elements without coordinates\<close>

text \<open>
  What the loop skips, and that it keeps the first element of each name: an element without
  a name, with a name already seen, or without a resolved latitude or longitude leaves the
  collected venues and the seen names as they were.
\<close>

lemma spots_loop_skips_unnamed:
  "elem_tags e ''name'' = None \<or> elem_tags e ''name'' = Some [] \<Longrightarrow>
     spots_loop ul lat lon il (e # es) acc seen = spots_loop ul lat lon il es acc seen"
  by auto

lemma spots_loop_skips_seen:
  "elem_tags e ''name'' = Some name \<Longrightarrow> name \<in> seen \<Longrightarrow>
     spots_loop ul lat lon il (e # es) acc seen = spots_loop ul lat lon il es acc seen"
  by simp

lemma spots_loop_skips_unresolved:
  "elem_lat e = None \<or> elem_lon e = None \<Longrightarrow>
     spots_loop ul lat lon il (e # es) acc seen = spots_loop ul lat lon il es acc seen"
  by (auto split: option.splits)

lemma spots_loop_distinct_acc:
  "spots_loop ul lat lon il es acc seen = Inr spots \<Longrightarrow>
   distinct (map spot_name acc) \<Longrightarrow> set (map spot_name acc) \<subseteq> seen \<Longrightarrow>
   distinct (map spot_name spots)"
proof (induction es arbitrary: acc seen)
  case Nil
  then show ?case by simp
next
  case (Cons e es)
  show ?case
  proof (cases rule: spots_loop_cases[of ul lat lon il e es acc seen])
    case skip
    with Cons.prems(1) have "spots_loop ul lat lon il es acc seen = Inr spots" by simp
    from Cons.IH[OF this Cons.prems(2,3)] show ?thesis .
  next
    case (fail err)
    with Cons.prems(1) show ?thesis by simp
  next
    case (keep name la lo d)
    let ?s = "\<lparr>spot_name = name, spot_label = tag_label (elem_tags e), spot_distance = d,
                spot_score = interest_score ul il (tag_label (elem_tags e)) d\<rparr>"
    from spots_loop_step[OF keep] Cons.prems(1)
    have run: "spots_loop ul lat lon il es (acc @ [?s]) (insert name seen) = Inr spots" by simp
    have d: "distinct (map spot_name (acc @ [?s]))"
      using Cons.prems(2,3) keep(3) by auto
    have s: "set (map spot_name (acc @ [?s])) \<subseteq> insert name seen"
      using Cons.prems(3) by auto
    from Cons.IH[OF run d s] show ?thesis .
  qed
qed

lemma spots_loop_names_distinct:
  "spots_loop ul lat lon il es [] {} = Inr spots \<Longrightarrow> distinct (map spot_name spots)"
  using spots_loop_distinct_acc[of ul lat lon il es "[]" "{}" spots] by simp

text \<open>
  Claim C3. An element whose direct \<^verbatim>\<open>lat\<close> is 0 and that has no \<^verbatim>\<open>center\<close> is skipped,
  although its coordinates are present: \<^verbatim>\<open>element.get("lat") or ...\<close> takes the number 0 for
  absent. The same element one degree further north is kept.
\<close>

theorem poi_zero_latitude_element_skipped:
  "spots_loop ul 1 9 []
     [\<lparr>el_tags = Some [''name'' \<mapsto> ''Equator Marker'', ''tourism'' \<mapsto> ''attraction''],
       el_lat = Some 0, el_lon = Some 9, el_center = None\<rparr>] [] {} = Inr []
   \<and> spots_loop ul 1 9 []
     [\<lparr>el_tags = Some [''name'' \<mapsto> ''Equator Marker'', ''tourism'' \<mapsto> ''attraction''],
       el_lat = Some 1, el_lon = Some 9, el_center = None\<rparr>] [] {}
     = Inr [\<lparr>spot_name = ''Equator Marker'', spot_label = ''Attraction'', spot_distance = 0,
             spot_score = 0\<rparr>]"
proof -
  have d: "km_distance 1 9 1 9 = Inr 0"
    by (simp add: km_distance_def radians_def atan2_def)
  have l: "tag_label [''name'' \<mapsto> ''Equator Marker'', ''tourism'' \<mapsto> ''attraction''] = ''Attraction''"
    by (simp add: tag_label_def POI_TAGS_def)
  show ?thesis
    by (simp add: elem_tags_def elem_lat_def elem_lon_def or_num_def d l interest_score_def)
qed

subsection \<open>Weather samples\<close>

lemma index_mid: "xs \<noteq> [] \<Longrightarrow> index xs (length xs div 2) = Inr (xs ! (length xs div 2))"
  by (simp add: index_def)
text \<open>
  Claim C5. For a non-empty hourly temperature (humidity) series the midday temperature
  (humidity snapshot) shows the element at index \<open>length div 2\<close>, which is in range, so no
  \<^verbatim>\<open>IndexError\<close> arises; for an empty or absent series the field is \<^verbatim>\<open>N/A\<close>.
\<close>

theorem midpoint_sample_or_na:
  "(temperature \<noteq> [] \<longrightarrow>
      midday_temp ev temperature
        = Inr (str_number ev (temperature ! (length temperature div 2)) @ degC))
   \<and> (humidity \<noteq> [] \<longrightarrow>
      humidity_snapshot ev humidity
        = Inr (str_number ev (humidity ! (length humidity div 2)) @ ''%''))
   \<and> (temperature \<noteq> [] \<longrightarrow> length temperature div 2 < length temperature)
   \<and> (humidity \<noteq> [] \<longrightarrow> length humidity div 2 < length humidity)
   \<and> midday_temp ev [] = Inr ''N/A''
   \<and> humidity_snapshot ev [] = Inr ''N/A''
   \<and> midday_temp ev (series_of None) = Inr ''N/A''
   \<and> humidity_snapshot ev (series_of None) = Inr ''N/A''"
  by (simp add: midday_temp_def humidity_snapshot_def index_mid series_of_def)

theorem midpoint_sample_or_na_witness:
  "midday_temp demo_env [Some 20, Some 25, Some 30, Some 28] = Inr (''30'' @ degC)
   \<and> humidity_snapshot demo_env [Some 40, Some 50, Some 60] = Inr ''50%''
   \<and> midday_temp demo_env [None] = Inr (''None'' @ degC)"
proof -
  have s: "env_str_num demo_env 30 = ''30''" "env_str_num demo_env 50 = ''50''"
    by (simp_all add: demo_env_def str_int_def str_nat.simps digit_char_def)
  from midpoint_sample_or_na[of "[Some 20, Some 25, Some 30, Some 28]" demo_env
      "[Some 40, Some 50, Some 60]"]
    midpoint_sample_or_na[of "[None]" demo_env "[]"]
  show ?thesis by (simp add: str_number_def s)
qed




text \<open>A null beside another element makes \<^verbatim>\<open>max\<close> raise.\<close>

lemma precip_risk_null_raises: "precip_risk ev [Some 10, None] = Inl TypeError"
  by (simp add: precip_risk_def py_max_def)





subsection \<open>Unresolved locations\<close>

lemma unlocated:
  assumes "location = [] \<or> geocoder location = GeoBody None \<or> geocoder location = GeoBody (Some [])"
  shows "lookup_coordinates geocoder location = Inr None"
  using assms by (auto simp: lookup_coordinates_def)

text \<open>
  For an empty location, and for one the geocoder has no result for, the weather outlook and
  the venue lookup both return a message and raise nothing.
\<close>

lemma unresolved_location_messages:
  "location = [] \<or> geocoder location = GeoBody None \<or> geocoder location = GeoBody (Some []) \<Longrightarrow>
     get_weather_outlook ev geocoder service location target_date
       = Inr (''Unable to locate coordinates for '' @ [CHR 0x27] @ location @ [CHR 0x27]
              @ ''. Ask the user for a clearer location.'')
     \<and> get_local_spots ul geocoder overpass location interest
       = Inr (''Unable to locate coordinates for '' @ [CHR 0x27] @ location @ [CHR 0x27] @ ''.'')"
  by (simp add: get_weather_outlook_def get_local_spots_def unlocated del: append_assoc)

text \<open>
  Claim C8. Both lookups are to answer an unresolved location with a message that tells the
  caller to ask the user for clarification. For the location Atlantis, which the geocoder has
  no result for, the weather outlook returns such a message; the venue lookup, on the same
  test of the coordinates, returns the same opening sentence without the instruction.
\<close>

theorem poi_unlocated_message_lacks_instruction:
  "get_weather_outlook demo_env (\<lambda>_. GeoBody (Some [])) (\<lambda>_ _ _. ForecastHttpError)
       ''Atlantis'' None
     = Inr (''Unable to locate coordinates for '' @ [CHR 0x27] @ ''Atlantis'' @ [CHR 0x27]
            @ ''. Ask the user for a clearer location.'')
   \<and> get_local_spots (\<lambda>s. s) (\<lambda>_. GeoBody (Some [])) (\<lambda>_ _. PoiBody None) ''Atlantis'' None
     = Inr (''Unable to locate coordinates for '' @ [CHR 0x27] @ ''Atlantis'' @ [CHR 0x27] @ ''.'')
   \<and> contains ''Ask the user''
         (''Unable to locate coordinates for '' @ [CHR 0x27] @ ''Atlantis'' @ [CHR 0x27]
          @ ''. Ask the user for a clearer location.'')
   \<and> \<not> contains ''Ask the user''
         (''Unable to locate coordinates for '' @ [CHR 0x27] @ ''Atlantis'' @ [CHR 0x27] @ ''.'')"
  by (simp add: get_weather_outlook_def get_local_spots_def lookup_coordinates_def)

subsection \<open>City news\<close>

lemma format_news_age_ok:
  "\<not> utc_raises ev item \<Longrightarrow>
     format_news_age ev (findtext (ni_pubDate item) []) = Inr (age_text ev item)"
  by (auto simp: utc_raises_def format_news_age_def age_text_def Let_def split: pub_parse.splits)

lemma format_news_age_Inr:
  "format_news_age ev (findtext (ni_pubDate item) []) = Inr age \<Longrightarrow>
     age = age_text ev item \<and> \<not> utc_raises ev item"
  by (auto simp: utc_raises_def format_news_age_def age_text_def Let_def
      split: pub_parse.splits if_splits)

lemma date_mismatch_Inr:
  "date_mismatch ev t item = Inr b \<Longrightarrow> b = (\<not> spec_date_ok ev t item)"
  by (auto simp: date_mismatch_def spec_date_ok_def findtext_def Let_def
      split: option.splits pub_parse.splits if_splits)

lemma date_mismatch_ok:
  "\<not> utc_raises ev item \<Longrightarrow> date_mismatch ev t item = Inr (\<not> spec_date_ok ev t item)"
  by (auto simp: date_mismatch_def spec_date_ok_def utc_raises_def findtext_def Let_def
      split: option.splits pub_parse.splits)

lemma keyword_miss_iff: "keyword_miss ev ks item \<longleftrightarrow> \<not> spec_keyword_ok ev ks item"
  by (auto simp: keyword_miss_def spec_keyword_ok_def Let_def list_ex_iff)

lemma news_loop_returns_acc:
  "length acc < 5 \<Longrightarrow> news_loop ev t ks items acc = Inr lines \<Longrightarrow>
   lines = acc @ map (\<lambda>it. news_line it (age_text ev it))
                   (take (5 - length acc)
                      (filter (spec_keyword_ok ev ks) (filter (spec_date_ok ev t) items)))"
proof (induction items arbitrary: acc)
  case Nil
  then show ?case by simp
next
  case (Cons item items)
  show ?case
  proof (cases "date_mismatch ev t item")
    case (Inl err)
    with Cons.prems show ?thesis by simp
  next
    case (Inr b)
    note dm = date_mismatch_Inr[OF Inr]
    show ?thesis
    proof (cases b)
      case True
      with Inr Cons.prems have "news_loop ev t ks items acc = Inr lines" by simp
      from Cons.IH[OF Cons.prems(1) this] dm True show ?thesis by simp
    next
      case False
      show ?thesis
      proof (cases "format_news_age ev (findtext (ni_pubDate item) [])")
        case age_err: (Inl err)
        with Inr False Cons.prems show ?thesis by simp
      next
        case age: (Inr age)
        note a = format_news_age_Inr[OF age]
        show ?thesis
        proof (cases "keyword_miss ev ks item")
          case True
          with Inr False age Cons.prems have "news_loop ev t ks items acc = Inr lines" by simp
          from Cons.IH[OF Cons.prems(1) this] dm False True show ?thesis
            by (simp add: keyword_miss_iff)
        next
          case keep: False
          show ?thesis
          proof (cases "length acc = 4")
            case True
            with Inr False age keep Cons.prems dm a show ?thesis
              by (auto simp: keyword_miss_iff Let_def)
          next
            case False
            with Cons.prems have len: "length (acc @ [news_line item age]) < 5" by simp
            from Inr \<open>\<not> b\<close> age keep False Cons.prems
            have run: "news_loop ev t ks items (acc @ [news_line item age]) = Inr lines"
              by (simp add: Let_def)
            have "5 - length acc = Suc (5 - length (acc @ [news_line item age]))"
              using Cons.prems(1) by simp
            with Cons.IH[OF len run] dm \<open>\<not> b\<close> keep a show ?thesis
              by (simp add: keyword_miss_iff)
          qed
        qed
      qed
    qed
  qed
qed

lemma news_loop_total_acc:
  "length acc < 5 \<Longrightarrow> \<forall>it \<in> set items. \<not> utc_raises ev it \<Longrightarrow>
   news_loop ev t ks items acc =
     Inr (acc @ map (\<lambda>it. news_line it (age_text ev it))
                  (take (5 - length acc)
                     (filter (spec_keyword_ok ev ks) (filter (spec_date_ok ev t) items))))"
proof (induction items arbitrary: acc)
  case Nil
  then show ?case by simp
next
  case (Cons item items)
  from Cons.prems have ok: "\<not> utc_raises ev item" and rest: "\<forall>it \<in> set items. \<not> utc_raises ev it"
    by simp_all
  note dm = date_mismatch_ok[OF ok, of t]
  note age = format_news_age_ok[OF ok]
  show ?case
  proof (cases "spec_date_ok ev t item \<and> spec_keyword_ok ev ks item")
    case False
    with Cons.IH[OF Cons.prems(1) rest] dm age show ?thesis
      by (auto simp: keyword_miss_iff)
  next
    case True
    show ?thesis
    proof (cases "length acc = 4")
      case four: True
      with True dm age show ?thesis by (simp add: keyword_miss_iff Let_def)
    next
      case False
      with Cons.prems have len: "length (acc @ [news_line item (age_text ev item)]) < 5" by simp
      have "5 - length acc = Suc (5 - length (acc @ [news_line item (age_text ev item)]))"
        using Cons.prems(1) by simp
      with Cons.IH[OF len rest] True False dm age show ?thesis
        by (simp add: keyword_miss_iff Let_def)
    qed
  qed
qed

lemma news_loop_returns:
  "news_loop ev t ks items [] = Inr lines \<Longrightarrow>
     lines = map (\<lambda>it. news_line it (age_text ev it)) (spec_news_filter ev t ks items)"
  using news_loop_returns_acc[of "[]" ev t ks items lines] by (simp add: spec_news_filter_def)

lemma news_loop_total:
  "\<forall>it \<in> set items. \<not> utc_raises ev it \<Longrightarrow>
     news_loop ev t ks items [] =
       Inr (map (\<lambda>it. news_line it (age_text ev it)) (spec_news_filter ev t ks items))"
  using news_loop_total_acc[of "[]" items ev t ks] by (simp add: spec_news_filter_def)


lemma same_library:
  assumes "env_parsedate ev' = env_parsedate ev" "env_lower ev' = env_lower ev"
  shows "date_mismatch ev' t item = date_mismatch ev t item"
    and "keyword_miss ev' ks item = keyword_miss ev ks item"
    and "spec_news_filter ev' t ks items = spec_news_filter ev t ks items"
    and "(format_news_age ev' p = Inl err) = (format_news_age ev p = Inl err)"
    and "(\<exists>a. format_news_age ev' p = Inr a) = (\<exists>a. format_news_age ev p = Inr a)"
proof -
  show "date_mismatch ev' t item = date_mismatch ev t item"
    using assms by (simp add: date_mismatch_def Let_def cong: pub_parse.case_cong)
  show "keyword_miss ev' ks item = keyword_miss ev ks item"
    using assms by (simp add: keyword_miss_def)
  have "spec_date_ok ev' t = spec_date_ok ev t"
    using assms by (intro ext) (simp add: spec_date_ok_def cong: option.case_cong pub_parse.case_cong)
  moreover have "spec_keyword_ok ev' ks = spec_keyword_ok ev ks"
    using assms by (intro ext) (simp add: spec_keyword_ok_def)
  ultimately show "spec_news_filter ev' t ks items = spec_news_filter ev t ks items"
    by (simp add: spec_news_filter_def)
  show "(format_news_age ev' p = Inl err) = (format_news_age ev p = Inl err)"
    using assms by (auto simp: format_news_age_def Let_def split: pub_parse.splits)
  show "(\<exists>a. format_news_age ev' p = Inr a) = (\<exists>a. format_news_age ev p = Inr a)"
    using assms by (auto simp: format_news_age_def Let_def split: pub_parse.splits)
qed

lemma news_loop_same_error:
  assumes p: "env_parsedate ev' = env_parsedate ev" and l: "env_lower ev' = env_lower ev"
  shows "length acc' = length acc \<Longrightarrow>
     (news_loop ev' t ks items acc' = Inl err) = (news_loop ev t ks items acc = Inl err)"
proof (induction items arbitrary: acc acc')
  case Nil
  then show ?case by simp
next
  case (Cons item items)
  note dm = same_library(1)[OF p l, of t item]
  note kw = same_library(2)[OF p l, of ks item]
  let ?p = "findtext (ni_pubDate item) []"
  show ?case
  proof (cases "date_mismatch ev t item")
    case (Inl e)
    with dm show ?thesis by simp
  next
    case (Inr b)
    show ?thesis
    proof (cases b)
      case True
      with Inr dm Cons.IH[OF Cons.prems] show ?thesis by simp
    next
      case False
      show ?thesis
      proof (cases "format_news_age ev ?p")
        case age: (Inl e)
        with same_library(4)[OF p l, of ?p e] have "format_news_age ev' ?p = Inl e" by simp
        with Inr False dm age show ?thesis by simp
      next
        case age: (Inr a)
        with same_library(5)[OF p l, of ?p] obtain a' where age': "format_news_age ev' ?p = Inr a'"
          by blast
        show ?thesis
        proof (cases "keyword_miss ev ks item")
          case True
          with Inr False dm kw age age' Cons.IH[OF Cons.prems] show ?thesis by simp
        next
          case keep: False
          have "length (acc' @ [news_line item a']) = length (acc @ [news_line item a])"
            using Cons.prems by simp
          from Cons.IH[OF this] Inr False dm kw age age' keep Cons.prems show ?thesis
            by (simp add: Let_def)
        qed
      qed
    qed
  qed
qed

lemma age_text_clock:
  "env_parsedate ev' = env_parsedate ev \<Longrightarrow> env_now ev' = env_now ev \<Longrightarrow>
     age_text ev' = age_text ev"
  by (intro ext) (simp add: age_text_def cong: pub_parse.case_cong)

lemma news_loop_dichotomy:
  assumes p: "env_parsedate ev' = env_parsedate ev" and l: "env_lower ev' = env_lower ev"
  shows "(\<exists>selected.
            news_loop ev t ks items [] = Inr (map (\<lambda>it. news_line it (age_text ev it)) selected)
            \<and> news_loop ev' t ks items [] = Inr (map (\<lambda>it. news_line it (age_text ev' it)) selected))
         \<or> (\<exists>err. news_loop ev t ks items [] = Inl err \<and> news_loop ev' t ks items [] = Inl err)"
proof (cases "news_loop ev t ks items []")
  case (Inl err)
  with news_loop_same_error[OF p l, of "[]" "[]" t ks items err] show ?thesis by simp
next
  case (Inr lines)
  have "\<exists>lines'. news_loop ev' t ks items [] = Inr lines'"
  proof (cases "news_loop ev' t ks items []")
    case (Inl err)
    with news_loop_same_error[OF p l, of "[]" "[]" t ks items err] Inr show ?thesis by simp
  next
    case (Inr lines')
    then show ?thesis by blast
  qed
  then obtain lines' where r': "news_loop ev' t ks items [] = Inr lines'" by blast
  from news_loop_returns[OF Inr] news_loop_returns[OF r'] Inr r' same_library(3)[OF p l, of t ks items]
  show ?thesis by auto
qed


lemma keywords_strip_unicode_space:
  "keywords_of demo_env (Some ([CHR 0xC2, CHR 0xA0] @ ''Cricket'' @ [CHR 0xE2, CHR 0x80, CHR 0x83]))
     = [''cricket'']"
  by (simp add: keywords_of_def strip_def is_space_def space2_def space3_def lower_def
      lower_char_def is_ascii_def)

lemma accented_keyword_matches:
  "keywords_of (demo_env\<lparr>env_lower := accent_lower\<rparr>)
       (Some [CHR ''F'', CHR 0xC3, CHR 0x8A, CHR ''T'', CHR ''E''])
     = [[CHR ''f'', CHR 0xC3, CHR 0xAA, CHR ''t'', CHR ''e'']]
   \<and> \<not> keyword_miss (demo_env\<lparr>env_lower := accent_lower\<rparr>)
         [[CHR ''f'', CHR 0xC3, CHR 0xAA, CHR ''t'', CHR ''e'']]
         \<lparr>ni_title = Some ([CHR ''F'', CHR 0xC3, CHR 0xAA] @ ''te de la Musique''),
          ni_description = None, ni_pubDate = None, ni_link = None, ni_source = None\<rparr>"
  by (simp add: keywords_of_def strip_def is_space_def space2_def space3_def lower_def
      is_ascii_def accent_lower_def keyword_miss_def findtext_def demo_env_def lower_char_def)

lemma overflow_propagates:
  "news_loop demo_env 20240 [] [item_today, item_overflow] [] = Inl OverflowError
   \<and> get_city_news demo_env (\<lambda>_. NewsFeed [item_today, item_overflow]) ''Hyderabad''
        (Some ''2025-06-01'') None = Inl OverflowError"
  by (simp add: get_city_news_def target_day_of_def parse_iso_date_def keywords_of_def
      date_mismatch_def format_news_age_def keyword_miss_def item_today_def item_overflow_def
      findtext_def demo_env_def Let_def)



lemma demo_no_raise:
  "\<not> utc_raises demo_env item_yesterday" "\<not> utc_raises demo_env item_today"
  "\<not> utc_raises demo_env item_undated" "\<not> utc_raises demo_env item_traffic"
  by (simp_all add: utc_raises_def item_yesterday_def item_today_def item_undated_def
      item_traffic_def demo_env_def findtext_def)



text \<open>
  Claim C7. When no item survives the filter the lookup returns a message, not an error:
  the notice that no date-matching headlines were found for the location on the target day,
  followed by the titles of the first three items of the unfiltered list, or by \<^verbatim>\<open>N/A\<close>
  when the feed has no item.
\<close>

theorem no_surviving_news_fallback:
  "location \<noteq> [] \<and> feed location = NewsFeed items
   \<and> news_loop ev (target_day_of ev target_date) (keywords_of ev interests) items [] = Inr [] \<longrightarrow>
   get_city_news ev feed location target_date interests
     = Inr (''No date-matching headlines found for '' @ location @ '' on ''
              @ env_isoformat ev (target_day_of ev target_date) @ ''.'' @ [CHR 0x0A]
            @ ''Sample current stories: ''
              @ (if items = [] then ''N/A''
                 else join '', '' (map (\<lambda>item. findtext (ni_title item) ''Untitled'') (take 3 items)))
              @ ''.'')"
  by (cases items) (simp_all add: get_city_news_def Let_def del: append_assoc)

theorem no_surviving_news_fallback_witness:
  "get_city_news demo_env (\<lambda>_. NewsFeed [item_yesterday, item_traffic]) ''Hyderabad''
      (Some ''2025-06-01'') (Some ''cricket'')
     = Inr (''No date-matching headlines found for Hyderabad on 2025-06-01.'' @ [CHR 0x0A]
            @ ''Sample current stories: Cricket final tonight, Traffic update.'')
   \<and> get_city_news demo_env (\<lambda>_. NewsFeed []) ''Hyderabad'' (Some ''2025-06-01'') None
     = Inr (''No date-matching headlines found for Hyderabad on 2025-06-01.'' @ [CHR 0x0A]
            @ ''Sample current stories: N/A.'')"
proof -
  have t: "target_day_of demo_env (Some ''2025-06-01'') = 20240"
    by (simp add: target_day_of_def parse_iso_date_def demo_env_def)
  have iso: "env_isoformat demo_env 20240 = ''2025-06-01''" by (simp add: demo_env_def)
  have k: "keywords_of demo_env (Some ''cricket'') = [''cricket'']" "keywords_of demo_env None = []"
    by (simp_all add: keywords_of_def strip_def is_space_def space2_def space3_def lower_def
        lower_char_def is_ascii_def)
  have sel: "spec_news_filter demo_env 20240 [''cricket''] [item_yesterday, item_traffic] = []"
    by (simp add: spec_news_filter_def spec_date_ok_def spec_keyword_ok_def
        item_yesterday_def item_traffic_def demo_env_def findtext_def lower_def lower_char_def
        is_ascii_def)
  have nr: "\<forall>item \<in> set [item_yesterday, item_traffic]. \<not> utc_raises demo_env item"
    using demo_no_raise by simp
  have none: "news_loop demo_env 20240 [''cricket''] [item_yesterday, item_traffic] [] = Inr []"
    by (simp only: news_loop_total[OF nr] sel) simp
  have titles: "map (\<lambda>item. findtext (ni_title item) ''Untitled'') (take 3 [item_yesterday, item_traffic])
      = [''Cricket final tonight'', ''Traffic update'']"
    by (simp add: item_yesterday_def item_traffic_def findtext_def)
  from no_surviving_news_fallback[of "''Hyderabad''" "\<lambda>_. NewsFeed [item_yesterday, item_traffic]"
         "[item_yesterday, item_traffic]" demo_env "Some ''2025-06-01''" "Some ''cricket''"]
  have a: "get_city_news demo_env (\<lambda>_. NewsFeed [item_yesterday, item_traffic]) ''Hyderabad''
      (Some ''2025-06-01'') (Some ''cricket'')
     = Inr (''No date-matching headlines found for Hyderabad on 2025-06-01.'' @ [CHR 0x0A]
            @ ''Sample current stories: Cricket final tonight, Traffic update.'')"
    by (simp only: t k none titles iso) (simp del: news_loop.simps)
  from no_surviving_news_fallback[of "''Hyderabad''" "\<lambda>_. NewsFeed []" "[]" demo_env
         "Some ''2025-06-01''" None]
  have b: "get_city_news demo_env (\<lambda>_. NewsFeed []) ''Hyderabad'' (Some ''2025-06-01'') None
     = Inr (''No date-matching headlines found for Hyderabad on 2025-06-01.'' @ [CHR 0x0A]
            @ ''Sample current stories: N/A.'')"
    by (simp add: t k iso)
  from a b show ?thesis by (simp del: news_loop.simps)
qed

text \<open>
  Claim C9 as stated fails: the same item list, target day and keywords give different lines
  when the clock has moved on by an hour, since each line carries the age of its item.
\<close>

theorem news_lines_depend_on_clock:
  "news_loop demo_env 20240 [] [item_today] []
     = Inr [''- Cricket carnival (Local outlet, 1h ago)'' @ [CHR 0x0A] @ ''  https://n.example/2'']
   \<and> news_loop (demo_env\<lparr>env_now := 1748775600\<rparr>) 20240 [] [item_today] []
     = Inr [''- Cricket carnival (Local outlet, 2h ago)'' @ [CHR 0x0A] @ ''  https://n.example/2'']
   \<and> news_loop demo_env 20240 [] [item_today] []
     \<noteq> news_loop (demo_env\<lparr>env_now := 1748775600\<rparr>) 20240 [] [item_today] []"
  by (simp add: date_mismatch_def keyword_miss_def news_line_def item_today_def findtext_def
      format_news_age_def demo_env_def str_text_def str_int_def str_nat.simps digit_char_def Let_def)

text \<open>
  Claim C9, as amended. Two runs over the same item list with the same target day and
  keywords, under the same library, either both raise the same error or both return: then
  they select the same items in the same order, their lines are the renderings of this one
  selection, and they are equal when both runs read the same clock.
\<close>

theorem news_selection_repeatable:
  "env_parsedate ev' = env_parsedate ev \<and> env_lower ev' = env_lower ev \<longrightarrow>
     ((\<exists>selected.
         news_loop ev target_day keywords items []
           = Inr (map (\<lambda>item. news_line item (age_text ev item)) selected)
         \<and> news_loop ev' target_day keywords items []
           = Inr (map (\<lambda>item. news_line item (age_text ev' item)) selected))
      \<or> (\<exists>err. news_loop ev target_day keywords items [] = Inl err
               \<and> news_loop ev' target_day keywords items [] = Inl err))
     \<and> (env_now ev' = env_now ev \<longrightarrow>
          news_loop ev' target_day keywords items [] = news_loop ev target_day keywords items [])"
proof (intro impI conjI)
  assume "env_parsedate ev' = env_parsedate ev \<and> env_lower ev' = env_lower ev"
  then have p: "env_parsedate ev' = env_parsedate ev" and l: "env_lower ev' = env_lower ev"
    by simp_all
  show d: "(\<exists>selected.
         news_loop ev target_day keywords items []
           = Inr (map (\<lambda>item. news_line item (age_text ev item)) selected)
         \<and> news_loop ev' target_day keywords items []
           = Inr (map (\<lambda>item. news_line item (age_text ev' item)) selected))
      \<or> (\<exists>err. news_loop ev target_day keywords items [] = Inl err
               \<and> news_loop ev' target_day keywords items [] = Inl err)"
    by (rule news_loop_dichotomy[OF p l])
  assume n: "env_now ev' = env_now ev"
  from d age_text_clock[OF p n]
  show "news_loop ev' target_day keywords items [] = news_loop ev target_day keywords items []"
    by auto
qed

theorem news_selection_repeatable_witness:
  "env_parsedate (demo_env\<lparr>env_now := 1748775600\<rparr>) = env_parsedate demo_env
   \<and> env_lower (demo_env\<lparr>env_now := 1748775600\<rparr>) = env_lower demo_env
   \<and> ((\<exists>selected.
         news_loop demo_env 20240 [] [item_yesterday, item_today] []
           = Inr (map (\<lambda>item. news_line item (age_text demo_env item)) selected)
         \<and> news_loop (demo_env\<lparr>env_now := 1748775600\<rparr>) 20240 [] [item_yesterday, item_today] []
           = Inr (map (\<lambda>item. news_line item (age_text (demo_env\<lparr>env_now := 1748775600\<rparr>) item))
                    selected))
      \<or> (\<exists>err. news_loop demo_env 20240 [] [item_yesterday, item_today] [] = Inl err
               \<and> news_loop (demo_env\<lparr>env_now := 1748775600\<rparr>) 20240 []
                    [item_yesterday, item_today] [] = Inl err))
   \<and> news_loop (demo_env\<lparr>env_now := env_now demo_env\<rparr>) 20240 [] [item_yesterday, item_today] []
       = news_loop demo_env 20240 [] [item_yesterday, item_today] []"
  using news_selection_repeatable[of "demo_env\<lparr>env_now := 1748775600\<rparr>" demo_env 20240 "[]"
          "[item_yesterday, item_today]"]
        news_selection_repeatable[of "demo_env\<lparr>env_now := env_now demo_env\<rparr>" demo_env 20240 "[]"
          "[item_yesterday, item_today]"]
  by (simp del: news_loop.simps)

subsection \<open>The guard of the workflow\<close>

text \<open>
  Claim C10. When the user data has no non-empty location, or the plan date is empty, the
  workflow raises \<^verbatim>\<open>ValueError\<close> and its trace is empty: no client was built, no agent
  created, no task run. Otherwise it returns a result and the trace starts with the client.
\<close>

theorem workflow_guard_raises_before_any_call:
  "(\<not> truthy_str (get_field user_data ''location'') \<longrightarrow>
      plan_day_workflow ut kickoff user_data plan_date commitments adjustments progress
        = (Inl (ValueError ''Location is required to generate the day plan.''), []))
   \<and> (truthy_str (get_field user_data ''location'') \<and> plan_date = [] \<longrightarrow>
      plan_day_workflow ut kickoff user_data plan_date commitments adjustments progress
        = (Inl (ValueError ''Plan date is required.''), []))
   \<and> (truthy_str (get_field user_data ''location'') \<and> plan_date \<noteq> [] \<longrightarrow>
      (\<exists>r trace. plan_day_workflow ut kickoff user_data plan_date commitments adjustments progress
                    = (Inr r, LlmBuilt # trace)))"
  by (simp add: plan_day_workflow_def Let_def)

theorem workflow_guard_raises_before_any_call_witness:
  "plan_day_workflow (\<lambda>s. s) (\<lambda>role description. role)
      [(''name'', Some ''Asha''), (''location'', Some [])] ''2025-06-01'' None None True
     = (Inl (ValueError ''Location is required to generate the day plan.''), [])
   \<and> plan_day_workflow (\<lambda>s. s) (\<lambda>role description. role) [(''name'', Some ''Asha'')]
      ''2025-06-01'' None None True
     = (Inl (ValueError ''Location is required to generate the day plan.''), [])
   \<and> plan_day_workflow (\<lambda>s. s) (\<lambda>role description. role) [(''location'', Some ''Hyderabad'')]
      [] None None True
     = (Inl (ValueError ''Plan date is required.''), [])
   \<and> (\<exists>r trace.
         plan_day_workflow (\<lambda>s. s) (\<lambda>role description. role) [(''location'', Some ''Hyderabad'')]
           ''2025-06-01'' None None True = (Inr r, LlmBuilt # trace))"
  using workflow_guard_raises_before_any_call[of "[(''name'', Some ''Asha''), (''location'', Some [])]"
          "\<lambda>s. s" "\<lambda>role description. role" "''2025-06-01''" None None True]
        workflow_guard_raises_before_any_call[of "[(''name'', Some ''Asha'')]"
          "\<lambda>s. s" "\<lambda>role description. role" "''2025-06-01''" None None True]
        workflow_guard_raises_before_any_call[of "[(''location'', Some ''Hyderabad'')]"
          "\<lambda>s. s" "\<lambda>role description. role" "[]" None None True]
        workflow_guard_raises_before_any_call[of "[(''location'', Some ''Hyderabad'')]"
          "\<lambda>s. s" "\<lambda>role description. role" "''2025-06-01''" None None True]
  by (simp add: get_field_def)

end
